theory Spec2Isabelle
  imports Main
begin

section \<open>The remote-backed file handle of lib/backends/dam/file.js\<close>

text \<open>
  A shallow embedding of \<^verbatim>\<open>JCRFile\<close>. The handle is a record; every callback-passing
  method becomes a function from the handle and the world (the log of effects issued so
  far, the temporary files on the local disk, the allocation counter of delegate objects)
  to the callback's argument, the updated handle and the updated world. What the outside
  answers (the HTTP response, the result of \<^verbatim>\<open>fs.stat\<close>, what the local delegate reports)
  is an explicit argument of each function, so a statement quantifies over it.
\<close>

subsection \<open>Constants of the JCR vocabulary\<close>

text \<open>
  Modelled from the spec: the module \<^verbatim>\<open>./constants\<close> (required as \<^verbatim>\<open>JCR\<close>) is not among
  the sources. The five node-type tags are the ones the specification names: the
  generic-file-type \<^verbatim>\<open>nt:file\<close>, the asset-type \<^verbatim>\<open>dam:Asset\<close>, the folder-type
  \<^verbatim>\<open>nt:folder\<close>, the generic-folder-type \<^verbatim>\<open>sling:Folder\<close> and the ordered-folder-type
  \<^verbatim>\<open>sling:OrderedFolder\<close>.
\<close>

definition NT_FILE :: string where
  "NT_FILE = ''nt:file''"

definition DAM_ASSET :: string where
  "DAM_ASSET = ''dam:Asset''"

definition NT_FOLDER :: string where
  "NT_FOLDER = ''nt:folder''"

definition SLING_FOLDER :: string where
  "SLING_FOLDER = ''sling:Folder''"

definition SLING_ORDEREDFOLDER :: string where
  "SLING_ORDEREDFOLDER = ''sling:OrderedFolder''"

subsection \<open>Static helpers\<close>

text \<open>\<^verbatim>\<open>Array.prototype.indexOf\<close>: the first index holding the element, or -1.\<close>

fun indexOf :: "'a list \<Rightarrow> 'a \<Rightarrow> int" where
  "indexOf [] x = -1"
| "indexOf (y # ys) x =
     (if y = x then 0
      else (let i = indexOf ys x in if i = -1 then -1 else i + 1))"

definition JCRFile_isFile :: "string \<Rightarrow> bool" where
  "JCRFile_isFile primaryType \<longleftrightarrow> indexOf [NT_FILE, DAM_ASSET] primaryType > -1"

definition JCRFile_isDirectory :: "string \<Rightarrow> bool" where
  "JCRFile_isDirectory primaryType \<longleftrightarrow>
     indexOf [NT_FOLDER, SLING_FOLDER, SLING_ORDEREDFOLDER] primaryType > -1"

text \<open>
  The specification's \<^verbatim>\<open>classify\<close> is not a function of the source: it names the
  outcome of the two static helpers, asked in this order.
\<close>

datatype kind = File | Directory | Other

definition classify :: "string \<Rightarrow> kind" where
  "classify primaryType =
     (if JCRFile_isFile primaryType then File
      else if JCRFile_isDirectory primaryType then Directory
      else Other)"

subsection \<open>Data\<close>

text \<open>
  A time is a number of milliseconds, or \<^verbatim>\<open>NaN\<close> (\<open>None\<close>). A \<^verbatim>\<open>Date\<close> holds a time of
  at most 8.64e15 milliseconds on either side of the epoch, and is invalid (its time is
  \<^verbatim>\<open>NaN\<close>) when built from anything else.

  A date-time string of the content record. \<^verbatim>\<open>new Date(ms).toISOString()\<close> writes the
  instant \<open>ms\<close> in ISO 8601 with millisecond precision, and throws a \<^verbatim>\<open>RangeError\<close> when
  the date is invalid; \<^verbatim>\<open>new Date(s).getTime()\<close> reads such a text back to the same
  instant. So the text is represented by the instant it denotes; anything \<^verbatim>\<open>Date\<close>
  cannot read (a missing field and an instant out of range included) has the time
  \<^verbatim>\<open>NaN\<close>.
\<close>

datatype jsexn = TypeError | RangeError

datatype datestr = ISOString int | NotADate

definition MAX_TIME :: int where
  "MAX_TIME = 8640000000000000"

definition valid_time :: "int option \<Rightarrow> bool" where
  "valid_time t = (case t of None \<Rightarrow> False | Some ms \<Rightarrow> - MAX_TIME \<le> ms \<and> ms \<le> MAX_TIME)"

definition toISOString :: "int option \<Rightarrow> jsexn + datestr" where
  "toISOString t =
     (case t of
        None \<Rightarrow> Inl RangeError
      | Some ms \<Rightarrow> if valid_time (Some ms) then Inr (ISOString ms) else Inl RangeError)"

fun Date_getTime :: "datestr \<Rightarrow> int option" where
  "Date_getTime (ISOString ms) = (if valid_time (Some ms) then Some ms else None)"
| "Date_getTime NotADate = None"

record content_node =
  jcr_lastModified :: datestr

record content =
  jcr_primaryType :: string
  jcr_created :: datestr
  jcr_content :: "content_node option"

text \<open>\<^verbatim>\<open>tree.share\<close>; the port is kept as the text that string concatenation gives it.\<close>

record share =
  share_host :: string
  share_port :: string
  share_path :: string
  share_auth :: string

text \<open>\<^verbatim>\<open>fs.Stats\<close>: the size, and the time of \<^verbatim>\<open>stats.mtime\<close> (\<^verbatim>\<open>stats.mtime.getTime()\<close>).\<close>

record stats =
  st_size :: int
  st_mtime :: "int option"

text \<open>
  An \<^verbatim>\<open>FSFile\<close> object. \<open>oid\<close> is the identity of the object: \<^verbatim>\<open>new FSFile\<close> takes the
  next free number, so two references are the same object exactly when the numbers agree.
\<close>

record FSFile =
  oid :: nat
  fs_filePath :: string
  fs_stats :: stats

record JCRFile =
  filePath :: string
  fileName :: string
  content :: content
  tree_share :: share
  fileLength :: int
  fsFile :: "FSFile option"

datatype http_method = GET | POST | DELETE

datatype event =
    TmpCreateWriteStream string
  | Request http_method string string
  | FsUnlink string
  | FsStat string
  | FsCreateReadStream string
  | DelegateRead nat "nat list" nat nat nat
  | DelegateWrite nat "nat list" nat
  | DelegateSetLength nat nat
  | DelegateDelete nat

record world =
  events :: "event list"
  files :: "string set"
  next_oid :: nat

text \<open>A lower-layer error: a string, or an \<^verbatim>\<open>Error\<close> object with its message.\<close>

datatype jserr = ErrString string | ErrObject string

fun err_message :: "jserr \<Rightarrow> string" where
  "err_message (ErrString s) = s"
| "err_message (ErrObject m) = m"

text \<open>
  The status codes of \<^verbatim>\<open>../../constants\<close> (not among the sources): the two this file
  uses, and any other code by its number.
\<close>

datatype ntstatus = STATUS_UNSUCCESSFUL | STATUS_NOT_IMPLEMENTED | STATUS_OTHER nat

text \<open>What a callback receives as its error: an \<^verbatim>\<open>SMBError\<close>, or a lower-layer error as it is.\<close>

datatype error = SMBError ntstatus "string option" | RawError jserr

text \<open>
  The answer to one HTTP request: the \<^verbatim>\<open>error\<close> event (the callback's \<^verbatim>\<open>err\<close>), or a
  response with its status code, received to its end.
\<close>

datatype http_outcome = RequestError jserr | Response nat

record fetch_env =
  tmp_prefix :: string
  get_outcome :: http_outcome
  stat_outcome :: "jserr + stats"

record delete_env =
  del_outcome :: http_outcome
  del_local :: "error option"

record flush_env =
  fl_fetch :: fetch_env
  fl_delete :: http_outcome
  fl_post :: http_outcome
  fl_stat :: "jserr + stats"

subsection \<open>Effects\<close>

definition log_event :: "event \<Rightarrow> world \<Rightarrow> world" where
  "log_event ev w = w\<lparr>events := events w @ [ev]\<rparr>"

definition tmp_createWriteStream :: "string \<Rightarrow> world \<Rightarrow> world" where
  "tmp_createWriteStream p w =
     (log_event (TmpCreateWriteStream p) w)\<lparr>files := insert p (files w)\<rparr>"

text \<open>\<^verbatim>\<open>fs.unlink\<close>; the source ignores its error argument.\<close>

definition fs_unlink :: "string \<Rightarrow> world \<Rightarrow> world" where
  "fs_unlink p w = (log_event (FsUnlink p) w)\<lparr>files := files w - {p}\<rparr>"

text \<open>
  Modelled from the spec: \<^verbatim>\<open>../fs/file\<close> (the Local Staging Delegate) is not among the
  sources. The delete of a delegate removes its backing temporary file when it succeeds;
  what it reports to its callback is an argument.
\<close>

definition FSFile_delete :: "error option \<Rightarrow> FSFile \<Rightarrow> world \<Rightarrow> error option \<times> world" where
  "FSFile_delete outcome f w =
     (outcome,
      (log_event (DelegateDelete (oid f)) w)
        \<lparr>files := (case outcome of None \<Rightarrow> files w - {fs_filePath f} | Some e \<Rightarrow> files w)\<rparr>)"

text \<open>
  The byte-range operations of the delegate: what each reports to its callback is an
  argument, and the call is logged with the arguments it was given.
\<close>

definition FSFile_read ::
  "(error + nat \<times> nat list) \<Rightarrow> FSFile \<Rightarrow> nat list \<Rightarrow> nat \<Rightarrow> nat \<Rightarrow> nat \<Rightarrow> world
     \<Rightarrow> (error + nat \<times> nat list) \<times> world" where
  "FSFile_read outcome f buffer offset len position w =
     (outcome, log_event (DelegateRead (oid f) buffer offset len position) w)"

definition FSFile_write ::
  "error option \<Rightarrow> FSFile \<Rightarrow> nat list \<Rightarrow> nat \<Rightarrow> world \<Rightarrow> error option \<times> world" where
  "FSFile_write outcome f data position w =
     (outcome, log_event (DelegateWrite (oid f) data position) w)"


subsection \<open>The staging cache\<close>

definition ensureGotLocalCopy ::
  "fetch_env \<Rightarrow> JCRFile \<Rightarrow> world \<Rightarrow> (jserr + FSFile) \<times> JCRFile \<times> world" where
  "ensureGotLocalCopy env h w =
     (case fsFile h of
        Some f \<Rightarrow> (Inr f, h, w)
      | None \<Rightarrow>
          (let tmpFilePath = tmp_prefix env @ ''-'' @ fileName h;
               w1 = tmp_createWriteStream tmpFilePath w;
               url = ''http://'' @ share_host (tree_share h) @ '':'' @ share_port (tree_share h)
                       @ share_path (tree_share h) @ filePath h;
               w2 = log_event (Request GET url (share_auth (tree_share h))) w1
           in case get_outcome env of
                RequestError err \<Rightarrow> (Inl err, h, fs_unlink tmpFilePath w2)
              | Response statusCode \<Rightarrow>
                  if statusCode \<noteq> 200
                  then (Inl (ErrString (''failed to spool '' @ filePath h @ '' to '' @ tmpFilePath)),
                        h, fs_unlink tmpFilePath w2)
                  else (case stat_outcome env of
                          Inl err \<Rightarrow> (Inl err, h, log_event (FsStat tmpFilePath) w2)
                        | Inr st \<Rightarrow>
                            (let w3 = log_event (FsStat tmpFilePath) w2;
                                 f = \<lparr>oid = next_oid w3, fs_filePath = tmpFilePath, fs_stats = st\<rparr>
                             in (Inr f, h\<lparr>fsFile := Some f\<rparr>,
                                 w3\<lparr>next_oid := Suc (next_oid w3)\<rparr>)))))"

subsection \<open>Metadata accessors\<close>

definition isFile :: "JCRFile \<Rightarrow> bool" where
  "isFile h = JCRFile_isFile (jcr_primaryType (content h))"

definition isDirectory :: "JCRFile \<Rightarrow> bool" where
  "isDirectory h = JCRFile_isDirectory (jcr_primaryType (content h))"

definition isReadOnly :: "JCRFile \<Rightarrow> bool" where
  "isReadOnly h = False"

definition size_JCRFile :: "JCRFile \<Rightarrow> int" where
  "size_JCRFile h = fileLength h"

definition allocationSize :: "JCRFile \<Rightarrow> int" where
  "allocationSize h = (if isFile h then size_JCRFile h else 0)"

definition created :: "JCRFile \<Rightarrow> int option" where
  "created h = Date_getTime (jcr_created (content h))"

text \<open>Reading a field of a missing \<^verbatim>\<open>jcr:content\<close> sub-record throws.\<close>

definition lastModified :: "JCRFile \<Rightarrow> jsexn + int option" where
  "lastModified h =
     (if isFile h
      then (case jcr_content (content h) of
              None \<Rightarrow> Inl TypeError
            | Some c \<Rightarrow> Inr (Date_getTime (jcr_lastModified c)))
      else Inr (created h))"

text \<open>
  The assignment evaluates its right-hand side first, so an invalid date throws before
  the missing sub-record does.
\<close>

definition setLastModified :: "int option \<Rightarrow> JCRFile \<Rightarrow> jsexn + JCRFile" where
  "setLastModified ms h =
     (if isFile h
      then (case toISOString ms of
              Inl exn \<Rightarrow> Inl exn
            | Inr isoString \<Rightarrow>
                (case jcr_content (content h) of
                   None \<Rightarrow> Inl TypeError
                 | Some c \<Rightarrow>
                     Inr (h\<lparr>content := (content h)
                             \<lparr>jcr_content := Some (c\<lparr>jcr_lastModified := isoString\<rparr>)\<rparr>\<rparr>)))
      else Inr h)"

definition lastChanged :: "JCRFile \<Rightarrow> int option" where
  "lastChanged h = created h"

definition lastAccessed :: "JCRFile \<Rightarrow> jsexn + int option" where
  "lastAccessed h = lastModified h"

subsection \<open>Byte I/O\<close>

definition read ::
  "fetch_env \<Rightarrow> (error + nat \<times> nat list) \<Rightarrow> nat list \<Rightarrow> nat \<Rightarrow> nat \<Rightarrow> nat
     \<Rightarrow> JCRFile \<Rightarrow> world \<Rightarrow> (error + nat \<times> nat list) \<times> JCRFile \<times> world" where
  "read env delegate buffer offset len position h w =
     (case ensureGotLocalCopy env h w of
        (Inl err, h1, w1) \<Rightarrow>
          (Inl (SMBError STATUS_UNSUCCESSFUL (Some (err_message err))), h1, w1)
      | (Inr localFile, h1, w1) \<Rightarrow>
          (case FSFile_read delegate localFile buffer offset len position w1 of
             (res, w2) \<Rightarrow> (res, h1, w2)))"

definition write_JCRFile ::
  "fetch_env \<Rightarrow> error option \<Rightarrow> nat list \<Rightarrow> nat
     \<Rightarrow> JCRFile \<Rightarrow> world \<Rightarrow> error option \<times> JCRFile \<times> world" where
  "write_JCRFile env delegate data position h w =
     (case ensureGotLocalCopy env h w of
        (Inl err, h1, w1) \<Rightarrow>
          (Some (SMBError STATUS_UNSUCCESSFUL (Some (err_message err))), h1, w1)
      | (Inr localFile, h1, w1) \<Rightarrow>
          (case FSFile_write delegate localFile data position w1 of
             (res, w2) \<Rightarrow> (res, h1, w2)))"


subsection \<open>Deletion, synchronisation, close\<close>

definition asset_url :: "JCRFile \<Rightarrow> string" where
  "asset_url h =
     ''http://'' @ share_host (tree_share h) @ '':'' @ share_port (tree_share h)
       @ ''/api/assets'' @ filePath h"

definition delete ::
  "delete_env \<Rightarrow> JCRFile \<Rightarrow> world \<Rightarrow> error option \<times> JCRFile \<times> world" where
  "delete env h w =
     (if share_path (tree_share h) = ''/content/dam''
      then (let w1 = log_event (Request DELETE (asset_url h) (share_auth (tree_share h))) w
            in case del_outcome env of
                 RequestError err \<Rightarrow> (Some (SMBError STATUS_UNSUCCESSFUL None), h, w1)
               | Response statusCode \<Rightarrow>
                   if statusCode \<noteq> 200
                   then (Some (SMBError STATUS_UNSUCCESSFUL None), h, w1)
                   else (case fsFile h of
                           Some f \<Rightarrow>
                             (case FSFile_delete (del_local env) f w1 of
                                (ignored, w2) \<Rightarrow> (None, h\<lparr>fsFile := None\<rparr>, w2))
                         | None \<Rightarrow> (None, h, w1)))
      else (Some (SMBError STATUS_NOT_IMPLEMENTED None), h, w))"

text \<open>
  The result of \<open>flush\<close> is the callback's argument (\<open>Inr\<close>), or the exception that
  \<open>setLastModified\<close> throws inside the \<^verbatim>\<open>fs.stat\<close> callback (\<open>Inl\<close>), after the length
  has been stored.
\<close>

definition flush ::
  "flush_env \<Rightarrow> JCRFile \<Rightarrow> world \<Rightarrow> (jsexn + error option) \<times> JCRFile \<times> world" where
  "flush env h w =
     (case fsFile h of
        None \<Rightarrow> (Inr None, h, w)
      | Some present \<Rightarrow>
          (case ensureGotLocalCopy (fl_fetch env) h w of
             (Inl err, h1, w1) \<Rightarrow>
               (Inr (Some (SMBError STATUS_UNSUCCESSFUL (Some (err_message err)))), h1, w1)
           | (Inr localFile, h1, w1) \<Rightarrow>
               if share_path (tree_share h1) = ''/content/dam''
               then (let url = asset_url h1;
                         w2 = log_event (Request DELETE url (share_auth (tree_share h1))) w1;
                         w3 = log_event (FsCreateReadStream (fs_filePath localFile)) w2;
                         w4 = log_event (Request POST url (share_auth (tree_share h1))) w3
                     in case fl_post env of
                          RequestError err \<Rightarrow>
                            (Inr (Some (SMBError STATUS_UNSUCCESSFUL (Some (err_message err)))),
                             h1, w4)
                        | Response statusCode \<Rightarrow>
                            if statusCode \<noteq> 200
                            then (Inr (Some (SMBError STATUS_UNSUCCESSFUL None)), h1, w4)
                            else (let w5 = log_event (FsStat (fs_filePath localFile)) w4
                                  in case fl_stat env of
                                       Inl err \<Rightarrow> (Inr (Some (RawError err)), h1, w5)
                                     | Inr st \<Rightarrow>
                                         (let h2 = h1\<lparr>fileLength := st_size st\<rparr>
                                          in case setLastModified (st_mtime st) h2 of
                                               Inl exn \<Rightarrow> (Inl exn, h2, w5)
                                             | Inr h3 \<Rightarrow> (Inr None, h3, w5))))
               else (Inr (Some (SMBError STATUS_NOT_IMPLEMENTED None)), h1, w1)))"


subsection \<open>The constructor\<close>

text \<open>
  \<open>new JCRFile(filePath, content, fileLength, tree)\<close>: no local copy yet. The base
  constructor \<^verbatim>\<open>File\<close> (\<^verbatim>\<open>../../spi/file\<close>, not among the sources) stores the path and
  the file name it derives from it, which is taken as an argument here.
\<close>

definition new_JCRFile :: "string \<Rightarrow> string \<Rightarrow> content \<Rightarrow> int \<Rightarrow> share \<Rightarrow> JCRFile" where
  "new_JCRFile path name c len sh =
     \<lparr>filePath = path, fileName = name, content = c, tree_share = sh,
      fileLength = len, fsFile = None\<rparr>"

subsection \<open>Sequences of operations on one handle\<close>




subsection \<open>Observations on the log of effects\<close>

text \<open>The effects a step added to the log, and the HTTP requests among them, in order.\<close>

definition new_events :: "world \<Rightarrow> world \<Rightarrow> event list" where
  "new_events w w' = drop (length (events w)) (events w')"

fun requests_of :: "event list \<Rightarrow> (http_method \<times> string) list" where
  "requests_of [] = []"
| "requests_of (Request m url a # evs) = (m, url) # requests_of evs"
| "requests_of (ev # evs) = requests_of evs"

text \<open>The number of remote GET fetches in the log.\<close>

definition fetches :: "world \<Rightarrow> nat" where
  "fetches w = length (filter (\<lambda>r. fst r = GET) (requests_of (events w)))"

text \<open>
  Sequential calls: each call starts when the one before has called back. The results of
  the calls are collected in order.
\<close>

fun ensure_calls ::
  "fetch_env list \<Rightarrow> JCRFile \<Rightarrow> world \<Rightarrow> (jserr + FSFile) list \<times> JCRFile \<times> world" where
  "ensure_calls [] h w = ([], h, w)"
| "ensure_calls (e # es) h w =
     (case ensureGotLocalCopy e h w of
        (r, h1, w1) \<Rightarrow>
          (case ensure_calls es h1 w1 of
             (rs, h2, w2) \<Rightarrow> (r # rs, h2, w2)))"

text \<open>The delegate object that a successful fetch creates, caches and returns.\<close>

definition staged_copy :: "fetch_env \<Rightarrow> JCRFile \<Rightarrow> world \<Rightarrow> stats \<Rightarrow> FSFile" where
  "staged_copy e h w st =
     \<lparr>oid = next_oid w, fs_filePath = tmp_prefix e @ ''-'' @ fileName h, fs_stats = st\<rparr>"

definition fetch_url :: "JCRFile \<Rightarrow> string" where
  "fetch_url h =
     ''http://'' @ share_host (tree_share h) @ '':'' @ share_port (tree_share h)
       @ share_path (tree_share h) @ filePath h"

text \<open>A request failed: a transport error, or a status other than 200.\<close>

fun request_failed :: "http_outcome \<Rightarrow> bool" where
  "request_failed (RequestError err) = True"
| "request_failed (Response statusCode) = (statusCode \<noteq> 200)"

text \<open>The normalized error: an \<^verbatim>\<open>SMBError\<close> of status \<^verbatim>\<open>STATUS_UNSUCCESSFUL\<close>.\<close>

fun is_unsuccessful :: "error \<Rightarrow> bool" where
  "is_unsuccessful (SMBError STATUS_UNSUCCESSFUL msg) = True"
| "is_unsuccessful e = False"

text \<open>A result is normalized when it is a success or the normalized error.\<close>

fun normalized :: "error + 'a \<Rightarrow> bool" where
  "normalized (Inl e) = is_unsuccessful e"
| "normalized (Inr v) = True"

fun normalized_opt :: "error option \<Rightarrow> bool" where
  "normalized_opt (Some e) = is_unsuccessful e"
| "normalized_opt None = True"




subsection \<open>Concrete handles and answers\<close>

definition dam_share :: share where
  "dam_share =
     \<lparr>share_host = ''localhost'', share_port = ''4502'',
      share_path = ''/content/dam'', share_auth = ''admin:admin''\<rparr>"

definition asset_handle :: JCRFile where
  "asset_handle =
     \<lparr>filePath = ''/docs/a.txt'', fileName = ''a.txt'',
      content = \<lparr>jcr_primaryType = ''dam:Asset'', jcr_created = ISOString 1000,
                 jcr_content = Some \<lparr>jcr_lastModified = ISOString 2000\<rparr>\<rparr>,
      tree_share = dam_share, fileLength = 10, fsFile = None\<rparr>"

definition folder_handle :: JCRFile where
  "folder_handle =
     \<lparr>filePath = ''/docs'', fileName = ''docs'',
      content = \<lparr>jcr_primaryType = ''sling:OrderedFolder'', jcr_created = ISOString 1000,
                 jcr_content = None\<rparr>,
      tree_share = dam_share, fileLength = 7, fsFile = None\<rparr>"

definition empty_world :: world where
  "empty_world = \<lparr>events = [], files = {}, next_oid = 0\<rparr>"

definition staged_stats :: stats where
  "staged_stats = \<lparr>st_size = 1024, st_mtime = Some 5000\<rparr>"

definition fetch_ok :: "string \<Rightarrow> fetch_env" where
  "fetch_ok prefix =
     \<lparr>tmp_prefix = prefix, get_outcome = Response 200, stat_outcome = Inr staged_stats\<rparr>"

definition fetch_404 :: "string \<Rightarrow> fetch_env" where
  "fetch_404 prefix =
     \<lparr>tmp_prefix = prefix, get_outcome = Response 404, stat_outcome = Inr staged_stats\<rparr>"

definition fetch_reset :: "string \<Rightarrow> fetch_env" where
  "fetch_reset prefix =
     \<lparr>tmp_prefix = prefix, get_outcome = RequestError (ErrObject ''ECONNRESET''),
      stat_outcome = Inr staged_stats\<rparr>"

definition flush_ok :: flush_env where
  "flush_ok =
     \<lparr>fl_fetch = fetch_ok ''/tmp/9'', fl_delete = Response 200, fl_post = Response 200,
      fl_stat = Inr staged_stats\<rparr>"

text \<open>A handle after one successful fetch in the empty world, with that world.\<close>

definition materialized :: "JCRFile \<Rightarrow> JCRFile \<times> world" where
  "materialized h = snd (ensureGotLocalCopy (fetch_ok ''/tmp/1'') h empty_world)"

text \<open>An error of the delegate whose status is not \<^verbatim>\<open>STATUS_UNSUCCESSFUL\<close>.\<close>

definition access_denied :: error where
  "access_denied = SMBError (STATUS_OTHER 3221225506) (Some ''EACCES'')"

section \<open>Classification of primary types\<close>

lemma JCRFile_isFile_iff: "JCRFile_isFile t \<longleftrightarrow> t = NT_FILE \<or> t = DAM_ASSET"
  by (auto simp: JCRFile_isFile_def Let_def)

lemma JCRFile_isDirectory_iff:
  "JCRFile_isDirectory t \<longleftrightarrow> t = NT_FOLDER \<or> t = SLING_FOLDER \<or> t = SLING_ORDEREDFOLDER"
  by (auto simp: JCRFile_isDirectory_def Let_def)

text \<open>
  Claim C9. The tags classified as a file are exactly \<^verbatim>\<open>nt:file\<close> and \<^verbatim>\<open>dam:Asset\<close>, the
  tags classified as a directory are exactly \<^verbatim>\<open>nt:folder\<close>, \<^verbatim>\<open>sling:OrderedFolder\<close> and
  \<^verbatim>\<open>sling:Folder\<close>, every other tag is \<open>Other\<close>; the two sets of tags are disjoint, so
  no tag and no handle is both a file and a directory.
\<close>

theorem classify_tags:
  "(classify t = File \<longleftrightarrow> t \<in> {NT_FILE, DAM_ASSET})
   \<and> (classify t = Directory \<longleftrightarrow> t \<in> {NT_FOLDER, SLING_ORDEREDFOLDER, SLING_FOLDER})
   \<and> (classify t = Other \<longleftrightarrow>
        t \<notin> {NT_FILE, DAM_ASSET} \<union> {NT_FOLDER, SLING_ORDEREDFOLDER, SLING_FOLDER})
   \<and> (JCRFile_isFile t \<longleftrightarrow> t \<in> {NT_FILE, DAM_ASSET})
   \<and> (JCRFile_isDirectory t \<longleftrightarrow> t \<in> {NT_FOLDER, SLING_ORDEREDFOLDER, SLING_FOLDER})
   \<and> {NT_FILE, DAM_ASSET} \<inter> {NT_FOLDER, SLING_ORDEREDFOLDER, SLING_FOLDER} = {}
   \<and> \<not> (JCRFile_isFile t \<and> JCRFile_isDirectory t)
   \<and> \<not> (isFile h \<and> isDirectory h)"
proof -
  have disj: "{NT_FILE, DAM_ASSET} \<inter> {NT_FOLDER, SLING_ORDEREDFOLDER, SLING_FOLDER} = {}"
    by (simp add: NT_FILE_def DAM_ASSET_def NT_FOLDER_def SLING_ORDEREDFOLDER_def
        SLING_FOLDER_def)
  have excl: "\<not> (JCRFile_isFile s \<and> JCRFile_isDirectory s)" for s
    using disj by (auto simp: JCRFile_isFile_iff JCRFile_isDirectory_iff)
  show ?thesis
    using disj excl [of t] excl [of "jcr_primaryType (content h)"]
    by (auto simp: classify_def isFile_def isDirectory_def
        JCRFile_isFile_iff JCRFile_isDirectory_iff)
qed

section \<open>The log of effects\<close>

lemma requests_of_append: "requests_of (xs @ ys) = requests_of xs @ requests_of ys"
  by (induction xs rule: requests_of.induct) simp_all

lemma new_events_append: "events w' = events w @ evs \<Longrightarrow> new_events w w' = evs"
  by (simp add: new_events_def)

section \<open>The staging cache\<close>

lemma new_JCRFile_unmaterialized: "fsFile (new_JCRFile path name c len sh) = None"
  by (simp add: new_JCRFile_def)

lemma ensure_cached: "fsFile h = Some f \<Longrightarrow> ensureGotLocalCopy e h w = (Inr f, h, w)"
  by (simp add: ensureGotLocalCopy_def)

lemma ensure_calls_cached:
  "fsFile h = Some f \<Longrightarrow> ensure_calls es h w = (replicate (length es) (Inr f), h, w)"
  by (induction es) (simp_all add: ensure_cached)

lemma ensure_success:
  assumes "fsFile h = None" "get_outcome e = Response 200" "stat_outcome e = Inr st"
  shows "ensureGotLocalCopy e h w =
    (Inr (staged_copy e h w st), h\<lparr>fsFile := Some (staged_copy e h w st)\<rparr>,
     w\<lparr>events := events w @ [TmpCreateWriteStream (tmp_prefix e @ ''-'' @ fileName h),
                               Request GET (fetch_url h) (share_auth (tree_share h)),
                               FsStat (tmp_prefix e @ ''-'' @ fileName h)],
        files := insert (tmp_prefix e @ ''-'' @ fileName h) (files w),
        next_oid := Suc (next_oid w)\<rparr>)"
  using assms
  by (simp add: ensureGotLocalCopy_def Let_def staged_copy_def log_event_def
      tmp_createWriteStream_def fetch_url_def)

lemma ensure_failure:
  assumes "fsFile h = None" "request_failed (get_outcome e)"
  shows "isl (fst (ensureGotLocalCopy e h w))"
    and "snd (ensureGotLocalCopy e h w) =
      (h, w\<lparr>events := events w @ [TmpCreateWriteStream (tmp_prefix e @ ''-'' @ fileName h),
                               Request GET (fetch_url h) (share_auth (tree_share h)),
                               FsUnlink (tmp_prefix e @ ''-'' @ fileName h)],
             files := files w - {tmp_prefix e @ ''-'' @ fileName h}\<rparr>)"
  using assms
  by (cases "get_outcome e";
      simp add: ensureGotLocalCopy_def Let_def log_event_def tmp_createWriteStream_def
        fs_unlink_def fetch_url_def)+

lemma fetches_events:
  "events w' = events w @ evs \<Longrightarrow>
   fetches w' = fetches w + length (filter (\<lambda>r. fst r = GET) (requests_of evs))"
  by (simp add: fetches_def requests_of_append)


section \<open>Fetch once\<close>

text \<open>
  Claim C1, as stated, at a first call that fails: two sequential calls on a new handle,
  the first answered with status 404 and the second with status 200, issue two GET
  requests, and the second call does not return what the first returned.
\<close>

theorem ensure_calls_refetch_after_failure:
  "fsFile asset_handle = None
   \<and> fetches empty_world = 0
   \<and> fetches (snd (snd (ensure_calls [fetch_404 ''/tmp/1'', fetch_ok ''/tmp/2'']
                          asset_handle empty_world))) = 2
   \<and> map isl (fst (ensure_calls [fetch_404 ''/tmp/1'', fetch_ok ''/tmp/2'']
                     asset_handle empty_world)) = [True, False]"
  by (simp add: ensureGotLocalCopy_def fetch_404_def fetch_ok_def asset_handle_def
      empty_world_def Let_def log_event_def tmp_createWriteStream_def fs_unlink_def
      dam_share_def fetches_def)

text \<open>
  Claim C1, amended. On a handle with no staging copy (as the constructor leaves it), when
  the fetch of the first call succeeds (status 200, and the stat of the temporary file
  succeeds), N sequential calls, N at least 1, issue exactly one GET request: every call
  returns the delegate object the first call created, the handle caches it, and the calls
  after the first leave the world as the first call left it, whatever the outside would
  have answered them.
\<close>

theorem ensure_calls_fetch_once:
  assumes "fsFile h = None" and "get_outcome e = Response 200" and "stat_outcome e = Inr st"
  shows "fst (ensure_calls (e # es) h w)
           = replicate (Suc (length es)) (Inr (staged_copy e h w st))
    \<and> fsFile (fst (snd (ensure_calls (e # es) h w))) = Some (staged_copy e h w st)
    \<and> snd (snd (ensure_calls (e # es) h w)) = snd (snd (ensureGotLocalCopy e h w))
    \<and> fetches (snd (snd (ensure_calls (e # es) h w))) = Suc (fetches w)"
proof -
  let ?f = "staged_copy e h w st"
  obtain w1 where first: "ensureGotLocalCopy e h w = (Inr ?f, h\<lparr>fsFile := Some ?f\<rparr>, w1)"
    and evs: "events w1 = events w @
        [TmpCreateWriteStream (tmp_prefix e @ ''-'' @ fileName h),
         Request GET (fetch_url h) (share_auth (tree_share h)),
         FsStat (tmp_prefix e @ ''-'' @ fileName h)]"
    using ensure_success [OF assms, of w] by simp
  have cached: "fsFile (h\<lparr>fsFile := Some ?f\<rparr>) = Some ?f"
    by simp
  have rest: "ensure_calls es (h\<lparr>fsFile := Some ?f\<rparr>) w1
                = (replicate (length es) (Inr ?f), h\<lparr>fsFile := Some ?f\<rparr>, w1)"
    using cached by (rule ensure_calls_cached)
  have "fetches w1 = Suc (fetches w)"
    using fetches_events [OF evs] by simp
  then show ?thesis
    using first rest by simp
qed

theorem ensure_calls_fetch_once_witness:
  "fsFile asset_handle = None
   \<and> get_outcome (fetch_ok ''/tmp/1'') = Response 200
   \<and> stat_outcome (fetch_ok ''/tmp/1'') = Inr staged_stats
   \<and> fst (ensure_calls [fetch_ok ''/tmp/1'', fetch_404 ''/tmp/2'', fetch_reset ''/tmp/3'']
            asset_handle empty_world)
       = [Inr \<lparr>oid = 0, fs_filePath = ''/tmp/1-a.txt'', fs_stats = staged_stats\<rparr>,
          Inr \<lparr>oid = 0, fs_filePath = ''/tmp/1-a.txt'', fs_stats = staged_stats\<rparr>,
          Inr \<lparr>oid = 0, fs_filePath = ''/tmp/1-a.txt'', fs_stats = staged_stats\<rparr>]
   \<and> fetches (snd (snd (ensure_calls
         [fetch_ok ''/tmp/1'', fetch_404 ''/tmp/2'', fetch_reset ''/tmp/3'']
         asset_handle empty_world))) = 1"
proof -
  have a: "fsFile asset_handle = None"
    by (simp add: asset_handle_def)
  have b: "get_outcome (fetch_ok ''/tmp/1'') = Response 200"
    by (simp add: fetch_ok_def)
  have c: "stat_outcome (fetch_ok ''/tmp/1'') = Inr staged_stats"
    by (simp add: fetch_ok_def)
  have d: "staged_copy (fetch_ok ''/tmp/1'') asset_handle empty_world staged_stats
             = \<lparr>oid = 0, fs_filePath = ''/tmp/1-a.txt'', fs_stats = staged_stats\<rparr>"
    by (simp add: staged_copy_def fetch_ok_def asset_handle_def empty_world_def)
  have e: "fetches empty_world = 0"
    by (simp add: fetches_def empty_world_def)
  note t = ensure_calls_fetch_once
      [OF a b c, of "[fetch_404 ''/tmp/2'', fetch_reset ''/tmp/3'']" empty_world]
  show ?thesis
    using t [THEN conjunct1] t [THEN conjunct2, THEN conjunct2, THEN conjunct2] a b c d e
    by (simp del: ensure_calls.simps)
qed

section \<open>A failed fetch\<close>

text \<open>
  Claim C7. A fetch that fails (a transport error, or a status other than 200) reports an
  error; the last effect before the report is the unlink of the temporary file, which is
  then not on the disk; the handle is unchanged, so nothing is remembered of the failure;
  and a following call whose fetch succeeds issues a new GET request and returns a
  delegate.
\<close>

theorem failed_fetch_cleans_up_and_retries:
  assumes "fsFile h = None" and "request_failed (get_outcome e)"
    and "get_outcome e2 = Response 200" and "stat_outcome e2 = Inr st"
  shows "isl (fst (ensureGotLocalCopy e h w))
    \<and> fst (snd (ensureGotLocalCopy e h w)) = h
    \<and> new_events w (snd (snd (ensureGotLocalCopy e h w)))
        = [TmpCreateWriteStream (tmp_prefix e @ ''-'' @ fileName h),
           Request GET (fetch_url h) (share_auth (tree_share h)),
           FsUnlink (tmp_prefix e @ ''-'' @ fileName h)]
    \<and> tmp_prefix e @ ''-'' @ fileName h \<notin> files (snd (snd (ensureGotLocalCopy e h w)))
    \<and> fst (ensure_calls [e, e2] h w)
        = [fst (ensureGotLocalCopy e h w),
           Inr (staged_copy e2 h (snd (snd (ensureGotLocalCopy e h w))) st)]
    \<and> fetches (snd (snd (ensure_calls [e, e2] h w))) = Suc (Suc (fetches w))"
proof -
  let ?p = "tmp_prefix e @ ''-'' @ fileName h"
  let ?w1 = "w\<lparr>events := events w @ [TmpCreateWriteStream ?p,
                 Request GET (fetch_url h) (share_auth (tree_share h)), FsUnlink ?p],
               files := files w - {?p}\<rparr>"
  obtain r where first: "ensureGotLocalCopy e h w = (r, h, ?w1)" and r: "isl r"
    using ensure_failure [OF assms(1,2), of w]
    by (cases "ensureGotLocalCopy e h w") auto
  have f1: "fetches ?w1 = Suc (fetches w)"
    by (simp add: fetches_def requests_of_append)
  have second: "ensureGotLocalCopy e2 h ?w1
      = (Inr (staged_copy e2 h ?w1 st), h\<lparr>fsFile := Some (staged_copy e2 h ?w1 st)\<rparr>,
         ?w1\<lparr>events := events ?w1 @ [TmpCreateWriteStream (tmp_prefix e2 @ ''-'' @ fileName h),
                               Request GET (fetch_url h) (share_auth (tree_share h)),
                               FsStat (tmp_prefix e2 @ ''-'' @ fileName h)],
        files := insert (tmp_prefix e2 @ ''-'' @ fileName h) (files ?w1),
        next_oid := Suc (next_oid ?w1)\<rparr>)"
    by (rule ensure_success [OF assms(1,3,4)])
  have f2: "fetches (snd (snd (ensureGotLocalCopy e2 h ?w1))) = Suc (fetches ?w1)"
    unfolding second by (simp add: fetches_def requests_of_append)
  show ?thesis
    using first r f1 f2 second by (simp add: new_events_def)
qed

theorem failed_fetch_cleans_up_and_retries_witness:
  "fsFile asset_handle = None
   \<and> request_failed (get_outcome (fetch_reset ''/tmp/1''))
   \<and> get_outcome (fetch_ok ''/tmp/2'') = Response 200
   \<and> stat_outcome (fetch_ok ''/tmp/2'') = Inr staged_stats
   \<and> fst (ensureGotLocalCopy (fetch_reset ''/tmp/1'') asset_handle empty_world)
       = Inl (ErrObject ''ECONNRESET'')
   \<and> ''/tmp/1-a.txt''
       \<notin> files (snd (snd (ensureGotLocalCopy (fetch_reset ''/tmp/1'') asset_handle empty_world)))
   \<and> fst (ensure_calls [fetch_reset ''/tmp/1'', fetch_ok ''/tmp/2''] asset_handle empty_world)
       = [Inl (ErrObject ''ECONNRESET''),
          Inr \<lparr>oid = 0, fs_filePath = ''/tmp/2-a.txt'', fs_stats = staged_stats\<rparr>]
   \<and> fetches (snd (snd (ensure_calls [fetch_reset ''/tmp/1'', fetch_ok ''/tmp/2'']
                          asset_handle empty_world))) = 2"
proof -
  have a: "fsFile asset_handle = None"
    by (simp add: asset_handle_def)
  have b: "request_failed (get_outcome (fetch_reset ''/tmp/1''))"
    by (simp add: fetch_reset_def)
  have c: "get_outcome (fetch_ok ''/tmp/2'') = Response 200"
    by (simp add: fetch_ok_def)
  have d: "stat_outcome (fetch_ok ''/tmp/2'') = Inr staged_stats"
    by (simp add: fetch_ok_def)
  have e: "fst (ensureGotLocalCopy (fetch_reset ''/tmp/1'') asset_handle empty_world)
             = Inl (ErrObject ''ECONNRESET'')"
    by (simp add: ensureGotLocalCopy_def fetch_reset_def asset_handle_def Let_def)
  have f: "next_oid (snd (snd (ensureGotLocalCopy (fetch_reset ''/tmp/1'') asset_handle
             empty_world))) = 0"
    by (simp add: ensureGotLocalCopy_def fetch_reset_def asset_handle_def Let_def
        empty_world_def fs_unlink_def log_event_def tmp_createWriteStream_def)
  have g: "fetches empty_world = 0"
    by (simp add: fetches_def empty_world_def)
  have h: "tmp_prefix (fetch_reset ''/tmp/1'') @ ''-'' @ fileName asset_handle = ''/tmp/1-a.txt''"
    "tmp_prefix (fetch_ok ''/tmp/2'') @ ''-'' @ fileName asset_handle = ''/tmp/2-a.txt''"
    by (simp_all add: fetch_reset_def fetch_ok_def asset_handle_def)
  show ?thesis
    using failed_fetch_cleans_up_and_retries [OF a b c d, of empty_world] a b c d e f g h
    by (simp add: staged_copy_def del: ensure_calls.simps)
qed

section \<open>Size\<close>

text \<open>
  Claim C5, as stated, at a directory: a handle of type \<^verbatim>\<open>sling:OrderedFolder\<close>
  constructed with length 7 is a directory and its \<open>size()\<close> is 7, not 0.
\<close>

theorem directory_size_not_zero:
  "isDirectory folder_handle \<and> size_JCRFile folder_handle = 7"
  by (simp add: isDirectory_def JCRFile_isDirectory_def folder_handle_def size_JCRFile_def
      NT_FOLDER_def SLING_FOLDER_def SLING_ORDEREDFOLDER_def)

text \<open>
  Claim C5, amended. For every handle, \<open>size()\<close> returns the last known byte length,
  whatever the type of the handle; it is \<open>allocationSize()\<close> that returns the size for a
  file-typed handle and 0 for every other handle, a directory-typed one included.
\<close>

theorem size_is_fileLength:
  "size_JCRFile h = fileLength h
   \<and> allocationSize h = (if isFile h then fileLength h else 0)
   \<and> (isDirectory h \<longrightarrow> allocationSize h = 0)"
proof -
  have "\<not> isFile h" if "isDirectory h"
    using that
    by (auto simp: isFile_def isDirectory_def JCRFile_isFile_iff JCRFile_isDirectory_iff
        NT_FILE_def DAM_ASSET_def NT_FOLDER_def SLING_FOLDER_def SLING_ORDEREDFOLDER_def)
  then show ?thesis
    by (auto simp: size_JCRFile_def allocationSize_def)
qed

theorem size_is_fileLength_witness:
  "isDirectory folder_handle
   \<and> size_JCRFile folder_handle = 7
   \<and> allocationSize folder_handle = 0
   \<and> size_JCRFile asset_handle = 10
   \<and> allocationSize asset_handle = 10"
proof -
  have d: "isDirectory folder_handle"
    by (simp add: isDirectory_def JCRFile_isDirectory_def folder_handle_def
        NT_FOLDER_def SLING_FOLDER_def SLING_ORDEREDFOLDER_def)
  have f: "isFile asset_handle"
    by (simp add: isFile_def JCRFile_isFile_def asset_handle_def NT_FILE_def DAM_ASSET_def)
  have l: "fileLength folder_handle = 7" "fileLength asset_handle = 10"
    by (simp_all add: folder_handle_def asset_handle_def)
  show ?thesis
    using size_is_fileLength [of folder_handle] size_is_fileLength [of asset_handle] d f l
    by simp
qed

section \<open>Byte I/O\<close>

text \<open>
  Claim C8, as stated, at a failure of the delegate: after a successful fetch the delegate
  reports an error whose status is not operation-unsuccessful, and \<open>read\<close> and \<open>write\<close>
  hand that error to the caller as it is.
\<close>

theorem delegate_error_not_normalized:
  "fst (read (fetch_ok ''/tmp/1'') (Inl access_denied) [] 0 4 0 asset_handle empty_world)
     = Inl access_denied
   \<and> \<not> normalized (fst (read (fetch_ok ''/tmp/1'') (Inl access_denied) [] 0 4 0
                         asset_handle empty_world))
   \<and> fst (write_JCRFile (fetch_ok ''/tmp/1'') (Some access_denied) [1, 2] 0
             asset_handle empty_world) = Some access_denied
   \<and> \<not> normalized_opt (fst (write_JCRFile (fetch_ok ''/tmp/1'') (Some access_denied) [1, 2] 0
                             asset_handle empty_world))"
  by (simp add: read_def write_JCRFile_def ensureGotLocalCopy_def fetch_ok_def asset_handle_def
      Let_def FSFile_read_def FSFile_write_def access_denied_def)

text \<open>
  Claim C8, amended. For every \<open>read()\<close> and \<open>write()\<close> call, a failure of the fetch
  performed by \<open>ensureGotLocalCopy()\<close> is surfaced to the caller as the normalized
  operation-unsuccessful error, carrying the message of the cause; when the fetch
  succeeds, the caller receives what the delegate's byte-range operation reports,
  unchanged, an error of the delegate included.
\<close>

theorem read_write_errors:
  "fst (read e d buffer offset len position h w)
     = (case fst (ensureGotLocalCopy e h w) of
          Inl err \<Rightarrow> Inl (SMBError STATUS_UNSUCCESSFUL (Some (err_message err)))
        | Inr localFile \<Rightarrow> d)
   \<and> fst (write_JCRFile e d' data position h w)
     = (case fst (ensureGotLocalCopy e h w) of
          Inl err \<Rightarrow> Some (SMBError STATUS_UNSUCCESSFUL (Some (err_message err)))
        | Inr localFile \<Rightarrow> d')
   \<and> (isl (fst (ensureGotLocalCopy e h w)) \<longrightarrow>
        isl (fst (read e d buffer offset len position h w))
        \<and> normalized (fst (read e d buffer offset len position h w))
        \<and> fst (write_JCRFile e d' data position h w) \<noteq> None
        \<and> normalized_opt (fst (write_JCRFile e d' data position h w)))"
  by (cases "ensureGotLocalCopy e h w"; cases "fst (ensureGotLocalCopy e h w)")
     (auto simp: read_def write_JCRFile_def FSFile_read_def FSFile_write_def)

theorem read_write_errors_witness:
  "isl (fst (ensureGotLocalCopy (fetch_404 ''/tmp/1'') asset_handle empty_world))
   \<and> fst (read (fetch_404 ''/tmp/1'') (Inr (4, [1, 2, 3, 4])) [] 0 4 0 asset_handle empty_world)
       = Inl (SMBError STATUS_UNSUCCESSFUL
               (Some ''failed to spool /docs/a.txt to /tmp/1-a.txt''))
   \<and> fst (write_JCRFile (fetch_404 ''/tmp/1'') None [1, 2] 0 asset_handle empty_world)
       = Some (SMBError STATUS_UNSUCCESSFUL
               (Some ''failed to spool /docs/a.txt to /tmp/1-a.txt''))
   \<and> normalized (fst (read (fetch_404 ''/tmp/1'') (Inr (4, [1, 2, 3, 4])) [] 0 4 0
                       asset_handle empty_world))"
proof -
  have a: "fst (ensureGotLocalCopy (fetch_404 ''/tmp/1'') asset_handle empty_world)
             = Inl (ErrString ''failed to spool /docs/a.txt to /tmp/1-a.txt'')"
    by (simp add: ensureGotLocalCopy_def fetch_404_def asset_handle_def Let_def)
  show ?thesis
    using read_write_errors [of "fetch_404 ''/tmp/1''" "Inr (4, [1, 2, 3, 4])" "[]" 0 4 0
        asset_handle empty_world None "[1, 2]"] a
    by simp
qed

section \<open>Deletion\<close>

text \<open>
  Claim C10. When the path is under the asset collection and the remote DELETE is answered
  with status 200, \<open>delete()\<close> reports success whatever the delete of the local staging
  copy reports: that outcome is dropped, and the staging copy is no longer referenced.
\<close>

theorem delete_ignores_local_outcome:
  assumes "share_path (tree_share h) = ''/content/dam''" and "del_outcome env = Response 200"
  shows "fst (delete (env\<lparr>del_local := l\<rparr>) h w) = None
    \<and> fsFile (fst (snd (delete (env\<lparr>del_local := l\<rparr>) h w))) = None"
  using assms
  by (cases "fsFile h") (simp_all add: delete_def Let_def FSFile_delete_def)

theorem delete_ignores_local_outcome_witness:
  "share_path (tree_share (fst (materialized asset_handle))) = ''/content/dam''
   \<and> del_outcome \<lparr>del_outcome = Response 200, del_local = None\<rparr> = Response 200
   \<and> fsFile (fst (materialized asset_handle))
       = Some \<lparr>oid = 0, fs_filePath = ''/tmp/1-a.txt'', fs_stats = staged_stats\<rparr>
   \<and> fst (FSFile_delete (Some access_denied)
            \<lparr>oid = 0, fs_filePath = ''/tmp/1-a.txt'', fs_stats = staged_stats\<rparr>
            (snd (materialized asset_handle))) = Some access_denied
   \<and> fst (delete \<lparr>del_outcome = Response 200, del_local = Some access_denied\<rparr>
            (fst (materialized asset_handle)) (snd (materialized asset_handle))) = None"
proof -
  have m: "fst (materialized asset_handle)
      = asset_handle\<lparr>fsFile := Some \<lparr>oid = 0, fs_filePath = ''/tmp/1-a.txt'',
                                       fs_stats = staged_stats\<rparr>\<rparr>"
    by (simp add: materialized_def ensureGotLocalCopy_def fetch_ok_def asset_handle_def
        Let_def empty_world_def log_event_def tmp_createWriteStream_def)
  have a: "share_path (tree_share (fst (materialized asset_handle))) = ''/content/dam''"
    unfolding m by (simp add: asset_handle_def dam_share_def)
  have b: "del_outcome \<lparr>del_outcome = Response 200, del_local = None\<rparr> = Response 200"
    by simp
  show ?thesis
    using delete_ignores_local_outcome [OF a b, of "Some access_denied"
        "snd (materialized asset_handle)"] a m
    by (simp add: FSFile_delete_def)
qed

section \<open>Synchronisation\<close>

lemma isFile_fileLength_update: "isFile (h\<lparr>fileLength := n\<rparr>) = isFile h"
  by (simp add: isFile_def)

lemma flush_staged:
  assumes "fsFile h = Some f" and "share_path (tree_share h) = ''/content/dam''"
  shows "flush env h w =
    (let w4 = w\<lparr>events := events w @
                 [Request DELETE (asset_url h) (share_auth (tree_share h)),
                  FsCreateReadStream (fs_filePath f),
                  Request POST (asset_url h) (share_auth (tree_share h))]\<rparr>;
         w5 = w\<lparr>events := events w @
                 [Request DELETE (asset_url h) (share_auth (tree_share h)),
                  FsCreateReadStream (fs_filePath f),
                  Request POST (asset_url h) (share_auth (tree_share h)),
                  FsStat (fs_filePath f)]\<rparr>
     in if request_failed (fl_post env)
        then (Inr (Some (SMBError STATUS_UNSUCCESSFUL
                (case fl_post env of RequestError err \<Rightarrow> Some (err_message err)
                 | Response statusCode \<Rightarrow> None))), h, w4)
        else (case fl_stat env of
                Inl err \<Rightarrow> (Inr (Some (RawError err)), h, w5)
              | Inr st \<Rightarrow>
                  (case setLastModified (st_mtime st) (h\<lparr>fileLength := st_size st\<rparr>) of
                     Inl exn \<Rightarrow> (Inl exn, h\<lparr>fileLength := st_size st\<rparr>, w5)
                   | Inr h3 \<Rightarrow> (Inr None, h3, w5))))"
  using assms
  by (cases "fl_post env")
     (simp_all add: flush_def ensure_cached Let_def log_event_def
        split: sum.splits)

lemma flush_staged_events:
  assumes "fsFile h = Some f" and "share_path (tree_share h) = ''/content/dam''"
  shows "\<exists>tl. events (snd (snd (flush env h w))) = events w @
           [Request DELETE (asset_url h) (share_auth (tree_share h)),
            FsCreateReadStream (fs_filePath f),
            Request POST (asset_url h) (share_auth (tree_share h))] @ tl
         \<and> requests_of tl = []"
  unfolding flush_staged [OF assms]
  by (simp add: Let_def split: sum.splits)

text \<open>
  Claim C3. In every \<open>flush()\<close> on a staged handle under the asset collection, the first
  effects are a DELETE of the asset URL, the opening of the staged file and a POST to the
  same URL, in this order, and they are the only requests of the call; this holds for
  every answer to the DELETE, which has no influence on the call at all.
\<close>

theorem flush_delete_then_post:
  assumes "fsFile h = Some f" and "share_path (tree_share h) = ''/content/dam''"
  shows "take 3 (new_events w (snd (snd (flush (env\<lparr>fl_delete := d\<rparr>) h w))))
           = [Request DELETE (asset_url h) (share_auth (tree_share h)),
              FsCreateReadStream (fs_filePath f),
              Request POST (asset_url h) (share_auth (tree_share h))]
    \<and> requests_of (new_events w (snd (snd (flush (env\<lparr>fl_delete := d\<rparr>) h w))))
           = [(DELETE, asset_url h), (POST, asset_url h)]
    \<and> flush (env\<lparr>fl_delete := d\<rparr>) h w = flush env h w"
proof -
  obtain tl where evs: "events (snd (snd (flush (env\<lparr>fl_delete := d\<rparr>) h w))) = events w @
           [Request DELETE (asset_url h) (share_auth (tree_share h)),
            FsCreateReadStream (fs_filePath f),
            Request POST (asset_url h) (share_auth (tree_share h))] @ tl"
    and tl: "requests_of tl = []"
    using flush_staged_events [OF assms] by blast
  have same: "flush (env\<lparr>fl_delete := d\<rparr>) h w = flush env h w"
    unfolding flush_staged [OF assms] by (simp add: Let_def)
  show ?thesis
    using same tl unfolding new_events_append [OF evs]
    by (simp add: requests_of_append)
qed

theorem flush_delete_then_post_witness:
  "fsFile (fst (materialized asset_handle))
     = Some \<lparr>oid = 0, fs_filePath = ''/tmp/1-a.txt'', fs_stats = staged_stats\<rparr>
   \<and> share_path (tree_share (fst (materialized asset_handle))) = ''/content/dam''
   \<and> requests_of (new_events (snd (materialized asset_handle))
        (snd (snd (flush (flush_ok\<lparr>fl_delete := RequestError (ErrObject ''ECONNRESET'')\<rparr>)
                     (fst (materialized asset_handle)) (snd (materialized asset_handle))))))
       = [(DELETE, ''http://localhost:4502/api/assets/docs/a.txt''),
          (POST, ''http://localhost:4502/api/assets/docs/a.txt'')]
   \<and> requests_of (new_events (snd (materialized asset_handle))
        (snd (snd (flush (flush_ok\<lparr>fl_delete := Response 404\<rparr>)
                     (fst (materialized asset_handle)) (snd (materialized asset_handle))))))
       = [(DELETE, ''http://localhost:4502/api/assets/docs/a.txt''),
          (POST, ''http://localhost:4502/api/assets/docs/a.txt'')]"
proof -
  have m: "fst (materialized asset_handle)
      = asset_handle\<lparr>fsFile := Some \<lparr>oid = 0, fs_filePath = ''/tmp/1-a.txt'',
                                       fs_stats = staged_stats\<rparr>\<rparr>"
    by (simp add: materialized_def ensureGotLocalCopy_def fetch_ok_def asset_handle_def
        Let_def empty_world_def log_event_def tmp_createWriteStream_def)
  have a: "fsFile (fst (materialized asset_handle))
     = Some \<lparr>oid = 0, fs_filePath = ''/tmp/1-a.txt'', fs_stats = staged_stats\<rparr>"
    unfolding m by simp
  have b: "share_path (tree_share (fst (materialized asset_handle))) = ''/content/dam''"
    unfolding m by (simp add: asset_handle_def dam_share_def)
  have u: "asset_url (fst (materialized asset_handle))
             = ''http://localhost:4502/api/assets/docs/a.txt''"
    unfolding m by (simp add: asset_url_def asset_handle_def dam_share_def)
  note t = flush_delete_then_post
      [OF a b, where w = "snd (materialized asset_handle)" and env = flush_ok]
  show ?thesis
    using t [where d = "RequestError (ErrObject ''ECONNRESET'')", THEN conjunct2, THEN conjunct1]
      t [where d = "Response 404", THEN conjunct2, THEN conjunct1] a b u
    by simp
qed

text \<open>
  Claim C4. A \<open>flush()\<close> that fails at the create step (the POST ends in a transport
  error or in a status other than 200) reports an operation-unsuccessful error and
  leaves the handle as it was, so its byte length and its last-modified time are what
  they were before the call.
\<close>

theorem flush_failed_create_keeps_metadata:
  assumes "fsFile h = Some f" and "share_path (tree_share h) = ''/content/dam''"
    and "request_failed (fl_post env)"
  shows "fst (flush env h w)
           = Inr (Some (SMBError STATUS_UNSUCCESSFUL
               (case fl_post env of RequestError err \<Rightarrow> Some (err_message err)
                | Response statusCode \<Rightarrow> None)))
    \<and> fst (snd (flush env h w)) = h
    \<and> size_JCRFile (fst (snd (flush env h w))) = size_JCRFile h
    \<and> lastModified (fst (snd (flush env h w))) = lastModified h"
  unfolding flush_staged [OF assms(1,2)] using assms(3) by (simp add: Let_def)

theorem flush_failed_create_keeps_metadata_witness:
  "fsFile (fst (materialized asset_handle))
     = Some \<lparr>oid = 0, fs_filePath = ''/tmp/1-a.txt'', fs_stats = staged_stats\<rparr>
   \<and> share_path (tree_share (fst (materialized asset_handle))) = ''/content/dam''
   \<and> request_failed (fl_post (flush_ok\<lparr>fl_post := Response 500\<rparr>))
   \<and> fst (flush (flush_ok\<lparr>fl_post := Response 500\<rparr>)
            (fst (materialized asset_handle)) (snd (materialized asset_handle)))
       = Inr (Some (SMBError STATUS_UNSUCCESSFUL None))
   \<and> size_JCRFile (fst (snd (flush (flush_ok\<lparr>fl_post := Response 500\<rparr>)
            (fst (materialized asset_handle)) (snd (materialized asset_handle))))) = 10
   \<and> lastModified (fst (snd (flush (flush_ok\<lparr>fl_post := Response 500\<rparr>)
            (fst (materialized asset_handle)) (snd (materialized asset_handle)))))
       = Inr (Some 2000)"
proof -
  have m: "fst (materialized asset_handle)
      = asset_handle\<lparr>fsFile := Some \<lparr>oid = 0, fs_filePath = ''/tmp/1-a.txt'',
                                       fs_stats = staged_stats\<rparr>\<rparr>"
    by (simp add: materialized_def ensureGotLocalCopy_def fetch_ok_def asset_handle_def
        Let_def empty_world_def log_event_def tmp_createWriteStream_def)
  have a: "fsFile (fst (materialized asset_handle))
     = Some \<lparr>oid = 0, fs_filePath = ''/tmp/1-a.txt'', fs_stats = staged_stats\<rparr>"
    unfolding m by simp
  have b: "share_path (tree_share (fst (materialized asset_handle))) = ''/content/dam''"
    unfolding m by (simp add: asset_handle_def dam_share_def)
  have c: "request_failed (fl_post (flush_ok\<lparr>fl_post := Response 500\<rparr>))"
    by simp
  have s: "size_JCRFile (fst (materialized asset_handle)) = 10"
    unfolding m by (simp add: size_JCRFile_def asset_handle_def)
  have l: "lastModified (fst (materialized asset_handle)) = Inr (Some 2000)"
    unfolding m
    by (simp add: lastModified_def isFile_def JCRFile_isFile_def asset_handle_def
        NT_FILE_def DAM_ASSET_def valid_time_def MAX_TIME_def)
  show ?thesis
    using flush_failed_create_keeps_metadata [OF a b c, of "snd (materialized asset_handle)"]
      a b c s l
    by simp
qed

text \<open>
  Claim C2, as stated, at a handle that is not file-typed: a staged handle of type
  \<^verbatim>\<open>sling:OrderedFolder\<close> under the asset collection is flushed with success (POST 200,
  stat with size 1024 and modification time 5000); afterwards \<open>size()\<close> is 1024, and
  \<open>lastModified()\<close> is still the creation time 1000.
\<close>

theorem flush_folder_keeps_lastModified:
  "share_path (tree_share (fst (materialized folder_handle))) = ''/content/dam''
   \<and> fsFile (fst (materialized folder_handle)) \<noteq> None
   \<and> fl_post flush_ok = Response 200
   \<and> fl_stat flush_ok = Inr \<lparr>st_size = 1024, st_mtime = Some 5000\<rparr>
   \<and> fst (flush flush_ok (fst (materialized folder_handle)) (snd (materialized folder_handle)))
       = Inr None
   \<and> size_JCRFile (fst (snd (flush flush_ok (fst (materialized folder_handle))
                                (snd (materialized folder_handle))))) = 1024
   \<and> lastModified (fst (snd (flush flush_ok (fst (materialized folder_handle))
                                (snd (materialized folder_handle))))) = Inr (Some 1000)"
proof -
  have m: "fst (materialized folder_handle)
      = folder_handle\<lparr>fsFile := Some \<lparr>oid = 0, fs_filePath = ''/tmp/1-docs'',
                                       fs_stats = staged_stats\<rparr>\<rparr>"
    by (simp add: materialized_def ensureGotLocalCopy_def fetch_ok_def folder_handle_def
        Let_def empty_world_def log_event_def tmp_createWriteStream_def)
  have nf: "\<not> isFile (folder_handle\<lparr>fsFile := x, fileLength := y\<rparr>)" for x y
    by (simp add: isFile_def JCRFile_isFile_def folder_handle_def NT_FILE_def DAM_ASSET_def)
  show ?thesis
    unfolding m
    by (simp add: flush_def ensure_cached Let_def flush_ok_def staged_stats_def
        setLastModified_def lastModified_def nf size_JCRFile_def created_def)
       (simp add: folder_handle_def dam_share_def valid_time_def MAX_TIME_def)
qed

text \<open>
  Claim C2, amended. After a staged \<open>flush()\<close> under the asset collection that succeeds
  (POST 200 and the stat succeeds), \<open>size()\<close> is the byte count of that stat; when the
  handle is file-typed, has its content sub-record, and the modification time of that
  stat is a valid date, the call reports success and \<open>lastModified()\<close> is that
  modification time; when the handle is not file-typed, the call reports success and
  \<open>lastModified()\<close> is still the creation time.
\<close>

theorem flush_success_refreshes_metadata:
  assumes "fsFile h = Some f" and "share_path (tree_share h) = ''/content/dam''"
    and "fl_post env = Response 200" and "fl_stat env = Inr st"
  shows "size_JCRFile (fst (snd (flush env h w))) = st_size st
    \<and> (isFile h \<and> jcr_content (content h) \<noteq> None \<and> valid_time (st_mtime st) \<longrightarrow>
         fst (flush env h w) = Inr None
         \<and> lastModified (fst (snd (flush env h w))) = Inr (st_mtime st))
    \<and> (\<not> isFile h \<longrightarrow>
         fst (flush env h w) = Inr None
         \<and> lastModified (fst (snd (flush env h w))) = Inr (created h))"
proof -
  let ?h2 = "h\<lparr>fileLength := st_size st\<rparr>"
  let ?w5 = "w\<lparr>events := events w @
                 [Request DELETE (asset_url h) (share_auth (tree_share h)),
                  FsCreateReadStream (fs_filePath f),
                  Request POST (asset_url h) (share_auth (tree_share h)),
                  FsStat (fs_filePath f)]\<rparr>"
  have fl: "flush env h w =
      (case setLastModified (st_mtime st) ?h2 of
         Inl exn \<Rightarrow> (Inl exn, ?h2, ?w5)
       | Inr h3 \<Rightarrow> (Inr None, h3, ?w5))"
    unfolding flush_staged [OF assms(1,2)] using assms(3,4) by (simp add: Let_def)
  have len: "size_JCRFile (fst (snd (flush env h w))) = st_size st"
    unfolding fl
    by (simp add: setLastModified_def size_JCRFile_def split: sum.splits option.splits)
  have other: "fst (flush env h w) = Inr None
         \<and> lastModified (fst (snd (flush env h w))) = Inr (created h)"
    if "\<not> isFile h"
    using that unfolding fl
    by (simp add: setLastModified_def isFile_fileLength_update lastModified_def created_def)
  have typed: "fst (flush env h w) = Inr None
         \<and> lastModified (fst (snd (flush env h w))) = Inr (st_mtime st)"
    if f: "isFile h" and c: "jcr_content (content h) \<noteq> None" and v: "valid_time (st_mtime st)"
  proof -
    obtain cn where cn: "jcr_content (content h) = Some cn"
      using c by auto
    obtain ms where ms: "st_mtime st = Some ms"
      using v by (cases "st_mtime st") (simp_all add: valid_time_def)
    have iso: "toISOString (Some ms) = Inr (ISOString ms)"
      using v ms by (simp add: toISOString_def)
    have upd: "setLastModified (Some ms) ?h2
        = Inr (?h2\<lparr>content := (content h)
                 \<lparr>jcr_content := Some (cn\<lparr>jcr_lastModified := ISOString ms\<rparr>)\<rparr>\<rparr>)"
      using f cn iso by (simp add: setLastModified_def isFile_fileLength_update)
    have rt: "Date_getTime (ISOString ms) = Some ms"
      using v ms by simp
    show ?thesis
      unfolding fl ms upd using f rt
      by (simp add: lastModified_def isFile_def)
  qed
  show ?thesis
    using len other typed by blast
qed

theorem flush_success_refreshes_metadata_witness:
  "fsFile (fst (materialized asset_handle))
     = Some \<lparr>oid = 0, fs_filePath = ''/tmp/1-a.txt'', fs_stats = staged_stats\<rparr>
   \<and> share_path (tree_share (fst (materialized asset_handle))) = ''/content/dam''
   \<and> fl_post flush_ok = Response 200
   \<and> fl_stat flush_ok = Inr \<lparr>st_size = 1024, st_mtime = Some 5000\<rparr>
   \<and> isFile (fst (materialized asset_handle))
   \<and> jcr_content (content (fst (materialized asset_handle))) \<noteq> None
   \<and> valid_time (Some 5000)
   \<and> fst (flush flush_ok (fst (materialized asset_handle)) (snd (materialized asset_handle)))
       = Inr None
   \<and> size_JCRFile (fst (snd (flush flush_ok (fst (materialized asset_handle))
                                (snd (materialized asset_handle))))) = 1024
   \<and> lastModified (fst (snd (flush flush_ok (fst (materialized asset_handle))
                                (snd (materialized asset_handle))))) = Inr (Some 5000)"
proof -
  have m: "fst (materialized asset_handle)
      = asset_handle\<lparr>fsFile := Some \<lparr>oid = 0, fs_filePath = ''/tmp/1-a.txt'',
                                       fs_stats = staged_stats\<rparr>\<rparr>"
    by (simp add: materialized_def ensureGotLocalCopy_def fetch_ok_def asset_handle_def
        Let_def empty_world_def log_event_def tmp_createWriteStream_def)
  have a: "fsFile (fst (materialized asset_handle))
     = Some \<lparr>oid = 0, fs_filePath = ''/tmp/1-a.txt'', fs_stats = staged_stats\<rparr>"
    unfolding m by simp
  have b: "share_path (tree_share (fst (materialized asset_handle))) = ''/content/dam''"
    unfolding m by (simp add: asset_handle_def dam_share_def)
  have c: "fl_post flush_ok = Response 200"
    by (simp add: flush_ok_def)
  have d: "fl_stat flush_ok = Inr \<lparr>st_size = 1024, st_mtime = Some 5000\<rparr>"
    by (simp add: flush_ok_def staged_stats_def)
  have e: "isFile (fst (materialized asset_handle))"
    unfolding m
    by (simp add: isFile_def JCRFile_isFile_def asset_handle_def NT_FILE_def DAM_ASSET_def)
  have g: "jcr_content (content (fst (materialized asset_handle))) \<noteq> None"
    unfolding m by (simp add: asset_handle_def)
  have v: "valid_time (Some 5000)"
    by (simp add: valid_time_def MAX_TIME_def)
  show ?thesis
    using flush_success_refreshes_metadata [OF a b c d, of "snd (materialized asset_handle)"]
      a b c d e g v
    by simp
qed

section \<open>The life of the staging copy\<close>




















end
